theory Spec2Isabelle
  imports Main
begin

section \<open>Server list item cards of the servers view\<close>

text \<open>
  The two card elements (\<open>server-row-card\<close>, \<open>server-hero-card\<close>) read a
  \<open>ServerListItem\<close> and a localizer and produce template results and event handlers.
  A template result of the rendering library is its static markup together with the values
  of its \<open>${...}\<close> expressions; the static markup is constant, so each template is modelled
  as the record of its expression values, in the order of the source. A handler is modelled
  by the trace of effects it performs when it runs.
\<close>

subsection \<open>Data model (\<open>server_list_item/index.ts\<close>)\<close>

text \<open>
  Modelled from the spec: the enumeration \<open>ServerConnectionState\<close> is declared by the
  connection indicator, outside the files at hand. The spec lists its members as
  disconnected, connecting, connected, reconnecting, disconnecting; the source names
  \<open>CONNECTING\<close>, \<open>CONNECTED\<close> and \<open>RECONNECTING\<close>.
\<close>

datatype ServerConnectionState =
  CONNECTING | CONNECTED | RECONNECTING | DISCONNECTING | DISCONNECTED

text \<open>
  Modelled from the spec: the string value of each member of \<open>ServerConnectionState\<close>, which
  the hero card interpolates into a message key. The spec writes the members in lower case.
\<close>

fun connectionStateValue :: "ServerConnectionState \<Rightarrow> string" where
  "connectionStateValue CONNECTING = ''connecting''"
| "connectionStateValue CONNECTED = ''connected''"
| "connectionStateValue RECONNECTING = ''reconnecting''"
| "connectionStateValue DISCONNECTING = ''disconnecting''"
| "connectionStateValue DISCONNECTED = ''disconnected''"

datatype ServerListItemEvent = CONNECT | DISCONNECT | FORGET | RENAME

fun eventName :: "ServerListItemEvent \<Rightarrow> string" where
  "eventName CONNECT = ''ConnectPressed''"
| "eventName DISCONNECT = ''DisconnectPressed''"
| "eventName FORGET = ''ForgetPressed''"
| "eventName RENAME = ''ShowServerRename''"

text \<open>
  \<open>errorMessageId\<close> is optional; \<open>name\<close> is read with \<open>??\<close>, so it may be null or
  undefined at run time. Both are options, \<open>None\<close> standing for null and undefined.
  The field \<open>id\<close> is written \<open>id'\<close>.
\<close>

record ServerListItem =
  disabled :: bool
  errorMessageId :: "string option"
  isOutlineServer :: bool
  address :: string
  id' :: string
  name :: "string option"
  connectionState :: ServerConnectionState

datatype Menu = MwcMenu

text \<open>A \<open>Ref\<close> holds no element until the referenced element has been rendered.\<close>

record 'a Ref =
  refValue :: "'a option"

record ServerListItemElement =
  server :: ServerListItem
  rootPath :: string
  localizer :: "string \<Rightarrow> string"
  menu :: "Menu Ref"

subsection \<open>Events and effects\<close>

record EventDetail =
  serverId :: string

text \<open>\<open>new CustomEvent(type, {detail, bubbles, composed})\<close>.\<close>

record CustomEvent =
  eventType :: ServerListItemEvent
  detail :: EventDetail
  bubbles :: bool
  composed :: bool

record KeyboardEvent =
  key :: string

text \<open>
  A method runs on a receiver, its \<open>this\<close>: the global object, the card element that
  hosts the template, or the menu element of the card.
\<close>

datatype Receiver = GlobalObject | CardElement | MenuElement Menu

datatype Effect =
    PreventDefault
  | StopImmediatePropagation
  | DispatchEvent Receiver CustomEvent
  | Show Receiver
  | UncaughtTypeError

type_synonym Handler = "unit \<Rightarrow> Effect list"

type_synonym KeyHandler = "KeyboardEvent \<Rightarrow> Effect list"

text \<open>
  \<open>dispatchEvent\<close> dispatches the event on its receiver. Called as a plain function it has
  no receiver, and a method of the platform then runs on the global object.
\<close>

definition dispatchEvent :: "Receiver option \<Rightarrow> CustomEvent \<Rightarrow> Effect list" where
  "dispatchEvent this ev =
     [DispatchEvent (case this of None \<Rightarrow> GlobalObject | Some target \<Rightarrow> target) ev]"

text \<open>
  \<open>getSharedComponents\<close> takes \<open>dispatchEvent\<close> off the element by destructuring
  (\<open>dispatchEvent: dispatcher\<close>) and calls it as \<open>dispatcher(...)\<close>, with no receiver.
\<close>

definition dispatcher :: "CustomEvent \<Rightarrow> Effect list" where
  "dispatcher ev = dispatchEvent None ev"

text \<open>The \<open>show\<close> method of the menu opens the element it runs on.\<close>

definition menuShow :: "Receiver \<Rightarrow> Effect list" where
  "menuShow this = [Show this]"

text \<open>The events a trace dispatches, in order.\<close>

fun dispatched :: "Effect list \<Rightarrow> CustomEvent list" where
  "dispatched [] = []"
| "dispatched (DispatchEvent target ev # es) = ev # dispatched es"
| "dispatched (e # es) = dispatched es"

text \<open>
  An event travels from the element it is dispatched on up through that element's
  ancestors when it bubbles, and across shadow roots when it is composed. An event
  dispatched on the global object has no path through the tree that contains the card.
\<close>

definition propagatesFromCard :: "Effect \<Rightarrow> bool" where
  "propagatesFromCard e =
     (case e of
        DispatchEvent target ev \<Rightarrow> target = CardElement \<and> bubbles ev \<and> composed ev
      | _ \<Rightarrow> False)"

text \<open>
  The value of an \<open>@event\<close> expression: undefined, the boolean \<open>false\<close>, or a function.
\<close>

datatype Listener = NoListener | FalseListener | FunctionListener Handler

subsection \<open>JavaScript values\<close>

text \<open>\<open>Boolean(x)\<close> on an optional string: undefined and the empty string are falsy.\<close>

definition Boolean :: "string option \<Rightarrow> bool" where
  "Boolean x = (case x of None \<Rightarrow> False | Some s \<Rightarrow> s \<noteq> [])"

text \<open>The type \<open>false | string\<close> of \<open>hasErrorMessage && localizer(...)\<close>.\<close>

datatype FalseOrString = JSFalse | JSString string

text \<open>
  The text the rendering library puts into the document for a child expression: a string
  is rendered as it is (the empty string as no node at all), and any other primitive as
  the text of \<open>String(value)\<close>, so the boolean \<open>false\<close> is rendered as the text \<open>false\<close>.
\<close>

definition childText :: "FalseOrString \<Rightarrow> string" where
  "childText v = (case v of JSFalse \<Rightarrow> ''false'' | JSString s \<Rightarrow> s)"

subsection \<open>Shared display and event derivation\<close>

definition isConnectedState :: "ServerConnectionState \<Rightarrow> bool" where
  "isConnectedState cs = (cs \<in> set [CONNECTING, CONNECTED, RECONNECTING])"

record Messages =
  serverName :: string
  error :: FalseOrString
  connectButton :: string

record Dispatchers =
  beginRename :: Handler
  forget :: Handler
  connectToggle :: Handler

text \<open>The expression values of the three shared templates.\<close>

record MetadataText =
  metadataServerName :: string
  metadataAddress :: string

record MenuTemplate =
  menuButtonClick :: Listener
  menuRef :: "Menu Ref"
  menuRenameClick :: Handler
  menuRenameLabel :: string
  menuForgetClick :: Handler
  menuForgetLabel :: string

record Footer =
  footerError :: FalseOrString
  footerButtonLabel :: string
  footerButtonClick :: Handler
  footerButtonDisabled :: bool

record Elements =
  elementsMetadataText :: MetadataText
  elementsMenu :: MenuTemplate
  elementsFooter :: Footer

record SharedComponents =
  messages :: Messages
  dispatchers :: Dispatchers
  elements :: Elements

definition hasErrorMessage :: "ServerListItem \<Rightarrow> bool" where
  "hasErrorMessage s = Boolean (errorMessageId s)"

text \<open>
  \<open>server.name ?? localizer(...)\<close> takes the right operand only for null and undefined.
  \<open>hasErrorMessage && localizer(server.errorMessageId)\<close> calls the localizer only when the
  id is truthy, hence a string.
\<close>

definition getMessages :: "ServerListItemElement \<Rightarrow> Messages" where
  "getMessages el =
     \<lparr> serverName =
         (case name (server el) of
            Some n \<Rightarrow> n
          | None \<Rightarrow>
              localizer el
                (if isOutlineServer (server el) then ''server-default-name-outline''
                 else ''server-default-name'')),
       error =
         (if hasErrorMessage (server el)
          then (case errorMessageId (server el) of
                  Some k \<Rightarrow> JSString (localizer el k)
                | None \<Rightarrow> JSFalse)
          else JSFalse),
       connectButton =
         localizer el
           (if isConnectedState (connectionState (server el)) then ''disconnect-button-label''
            else ''connect-button-label'') \<rparr>"

definition getDispatchers :: "ServerListItemElement \<Rightarrow> Dispatchers" where
  "getDispatchers el =
     \<lparr> beginRename = (\<lambda>_.
         dispatcher
           \<lparr> eventType = RENAME, detail = \<lparr> serverId = id' (server el) \<rparr>,
             bubbles = True, composed = True \<rparr>),
       forget = (\<lambda>_.
         dispatcher
           \<lparr> eventType = FORGET, detail = \<lparr> serverId = id' (server el) \<rparr>,
             bubbles = True, composed = True \<rparr>),
       connectToggle = (\<lambda>_.
         dispatcher
           \<lparr> eventType =
               (if isConnectedState (connectionState (server el)) then DISCONNECT else CONNECT),
             detail = \<lparr> serverId = id' (server el) \<rparr>,
             bubbles = True, composed = True \<rparr>) \<rparr>"

text \<open>
  \<open>@click=${menu.value?.show}\<close> takes the method \<open>show\<close> off the menu element, if the
  ref holds one; the rendering library calls a listener with the host card as receiver.
\<close>

definition getSharedComponents :: "ServerListItemElement \<Rightarrow> SharedComponents" where
  "getSharedComponents el =
     (let msgs = getMessages el;
          disp = getDispatchers el
      in \<lparr> messages = msgs,
           dispatchers = disp,
           elements =
             \<lparr> elementsMetadataText =
                 \<lparr> metadataServerName = serverName msgs,
                   metadataAddress = address (server el) \<rparr>,
               elementsMenu =
                 \<lparr> menuButtonClick =
                     (case refValue (menu el) of
                        None \<Rightarrow> NoListener
                      | Some m \<Rightarrow> FunctionListener (\<lambda>_. menuShow CardElement)),
                   menuRef = menu el,
                   menuRenameClick = beginRename disp,
                   menuRenameLabel = localizer el ''server-rename'',
                   menuForgetClick = forget disp,
                   menuForgetLabel = localizer el ''server-forget'' \<rparr>,
               elementsFooter =
                 \<lparr> footerError = error msgs,
                   footerButtonLabel = connectButton msgs,
                   footerButtonClick = connectToggle disp,
                   footerButtonDisabled = hasErrorMessage (server el) \<rparr> \<rparr> \<rparr>)"

subsection \<open>Row card\<close>

record RowCard =
  rowConnectionState :: ServerConnectionState
  rowRootPath :: string
  rowMetadataText :: MetadataText
  rowMenu :: MenuTemplate
  rowFooter :: Footer

definition renderServerRowCard :: "ServerListItemElement \<Rightarrow> RowCard" where
  "renderServerRowCard this =
     (let els = elements (getSharedComponents this)
      in \<lparr> rowConnectionState = connectionState (server this),
           rowRootPath = rootPath this,
           rowMetadataText = elementsMetadataText els,
           rowMenu = elementsMenu els,
           rowFooter = elementsFooter els \<rparr>)"

subsection \<open>Hero card\<close>

record HeroCard =
  heroMetadataText :: MetadataText
  heroMenu :: MenuTemplate
  heroIndicatorClick :: Listener
  heroIndicatorKeydown :: KeyHandler
  heroConnectionState :: ServerConnectionState
  heroIndicatorId :: string
  heroRootPath :: string
  heroIndicatorTitle :: string
  heroLabelFor :: string
  heroLabelText :: string
  heroFooter :: Footer

definition connectToggleKeyboardDispatcher :: "Dispatchers \<Rightarrow> KeyHandler" where
  "connectToggleKeyboardDispatcher disp event =
     [PreventDefault, StopImmediatePropagation]
     @ (if key event = ''Enter'' then connectToggle disp () else [])"

text \<open>
  \<open>!this.server.errorMessageId && dispatchers.connectToggle\<close> is \<open>false\<close> when the id
  is truthy, and the handler otherwise.
\<close>

definition renderServerHeroCard :: "ServerListItemElement \<Rightarrow> HeroCard" where
  "renderServerHeroCard this =
     (let shared = getSharedComponents this;
          els = elements shared;
          disp = dispatchers shared;
          msgs = messages shared;
          connectionStatusText =
            localizer this (connectionStateValue (connectionState (server this)) @ ''-server-state'')
      in \<lparr> heroMetadataText = elementsMetadataText els,
           heroMenu = elementsMenu els,
           heroIndicatorClick =
             (if \<not> Boolean (errorMessageId (server this))
              then FunctionListener (connectToggle disp)
              else FalseListener),
           heroIndicatorKeydown = connectToggleKeyboardDispatcher disp,
           heroConnectionState = connectionState (server this),
           heroIndicatorId = connectButton msgs,
           heroRootPath = rootPath this,
           heroIndicatorTitle = connectionStatusText,
           heroLabelFor = connectButton msgs,
           heroLabelText = connectionStatusText,
           heroFooter = elementsFooter els \<rparr>)"

subsection \<open>User input\<close>

text \<open>
  A click runs the listener of the \<open>@click\<close> expression. For undefined the library
  registers nothing. The boolean \<open>false\<close> is registered like a listener object, and the
  click then fails with a \<open>TypeError\<close> that nothing catches; no handler of this code runs.
  A key press runs the \<open>@keydown\<close> listener on the key event.
\<close>

definition click :: "Listener \<Rightarrow> Effect list" where
  "click listener =
     (case listener of
        NoListener \<Rightarrow> []
      | FalseListener \<Rightarrow> [UncaughtTypeError]
      | FunctionListener h \<Rightarrow> h ())"

definition keydown :: "KeyHandler \<Rightarrow> KeyboardEvent \<Rightarrow> Effect list" where
  "keydown listener event = listener event"

subsection \<open>Sample inputs\<close>

definition sampleLocalizer :: "string \<Rightarrow> string" where
  "sampleLocalizer messageID = ''<'' @ messageID @ ''>''"

definition sampleServer :: ServerListItem where
  "sampleServer =
     \<lparr> disabled = False, errorMessageId = None, isOutlineServer = True,
       address = ''192.0.2.1:443'', id' = ''server-1'', name = Some ''My server'',
       connectionState = DISCONNECTED \<rparr>"

definition sampleElement :: "ServerListItem \<Rightarrow> ServerListItemElement" where
  "sampleElement s =
     \<lparr> server = s, rootPath = ''/'', localizer = sampleLocalizer,
       menu = \<lparr> refValue = None \<rparr> \<rparr>"

section \<open>Properties\<close>

lemmas card_defs =
  getSharedComponents_def getMessages_def getDispatchers_def renderServerRowCard_def
  renderServerHeroCard_def connectToggleKeyboardDispatcher_def hasErrorMessage_def
  Boolean_def isConnectedState_def dispatcher_def dispatchEvent_def menuShow_def click_def
  keydown_def childText_def Let_def

lemmas sample_defs = sampleLocalizer_def sampleServer_def sampleElement_def

subsection \<open>What the three dispatchers do\<close>

lemma connectToggle_trace:
  "connectToggle (dispatchers (getSharedComponents el)) () =
     [DispatchEvent GlobalObject
        \<lparr> eventType = (if isConnectedState (connectionState (server el)) then DISCONNECT else CONNECT),
          detail = \<lparr> serverId = id' (server el) \<rparr>, bubbles = True, composed = True \<rparr>]"
  by (simp add: card_defs)

lemma beginRename_trace:
  "beginRename (dispatchers (getSharedComponents el)) () =
     [DispatchEvent GlobalObject
        \<lparr> eventType = RENAME, detail = \<lparr> serverId = id' (server el) \<rparr>,
          bubbles = True, composed = True \<rparr>]"
  by (simp add: card_defs)

lemma forget_trace:
  "forget (dispatchers (getSharedComponents el)) () =
     [DispatchEvent GlobalObject
        \<lparr> eventType = FORGET, detail = \<lparr> serverId = id' (server el) \<rparr>,
          bubbles = True, composed = True \<rparr>]"
  by (simp add: card_defs)

subsection \<open>The listeners of the hero card's indicator\<close>

lemma hero_click_listener:
  "heroIndicatorClick (renderServerHeroCard el) =
     (if hasErrorMessage (server el) then FalseListener
      else FunctionListener (connectToggle (dispatchers (getSharedComponents el))))"
  by (simp add: renderServerHeroCard_def hasErrorMessage_def Let_def)

lemma hero_click_suppressed:
  "hasErrorMessage (server el) \<Longrightarrow>
     click (heroIndicatorClick (renderServerHeroCard el)) = [UncaughtTypeError]
     \<and> dispatched (click (heroIndicatorClick (renderServerHeroCard el))) = []"
  by (simp add: hero_click_listener click_def)

lemma hero_click_toggles:
  "\<not> hasErrorMessage (server el) \<Longrightarrow>
     click (heroIndicatorClick (renderServerHeroCard el))
       = connectToggle (dispatchers (getSharedComponents el)) ()"
  by (simp add: hero_click_listener click_def)

lemma hero_keydown_listener:
  "heroIndicatorKeydown (renderServerHeroCard el) =
     connectToggleKeyboardDispatcher (dispatchers (getSharedComponents el))"
  by (simp add: renderServerHeroCard_def Let_def)

subsection \<open>The error span of the footer\<close>

text \<open>
  Without a truthy error message id, \<open>hasErrorMessage && localizer(...)\<close> is the boolean
  \<open>false\<close>, and the span of the footer renders it as text.
\<close>

lemma error_span_text_without_error:
  "\<not> hasErrorMessage (server el) \<Longrightarrow>
     childText (footerError (elementsFooter (elements (getSharedComponents el)))) = ''false''"
  by (simp add: getSharedComponents_def getMessages_def childText_def Let_def)

lemma footer_is_shared:
  "rowFooter (renderServerRowCard el) = elementsFooter (elements (getSharedComponents el))"
  "heroFooter (renderServerHeroCard el) = elementsFooter (elements (getSharedComponents el))"
  by (simp_all add: renderServerRowCard_def renderServerHeroCard_def Let_def)

subsection \<open>No action dispatches on the card\<close>

lemma dispatcher_target: "\<not> list_ex propagatesFromCard (dispatcher ev)"
  by (simp add: dispatcher_def dispatchEvent_def propagatesFromCard_def)

subsection \<open>The \<open>disabled\<close> field is never read\<close>

lemma getMessages_disabled:
  "getMessages (el\<lparr>server := (server el)\<lparr>disabled := d\<rparr>\<rparr>) = getMessages el"
  by (simp add: getMessages_def hasErrorMessage_def split: option.split)

lemma getDispatchers_disabled:
  "getDispatchers (el\<lparr>server := (server el)\<lparr>disabled := d\<rparr>\<rparr>) = getDispatchers el"
  by (simp add: getDispatchers_def)

lemma getSharedComponents_disabled:
  "getSharedComponents (el\<lparr>server := (server el)\<lparr>disabled := d\<rparr>\<rparr>) = getSharedComponents el"
  by (simp add: getSharedComponents_def getMessages_disabled getDispatchers_disabled
      hasErrorMessage_def)

subsection \<open>Claims\<close>

text \<open>
  C1. The connect/disconnect toggle dispatches exactly one event. It is \<open>DisconnectPressed\<close>
  if and only if the connection state is one of connecting, connected, reconnecting, and
  \<open>ConnectPressed\<close> for every other state.
\<close>

theorem connectToggle_event_by_state:
  "(map (eventName \<circ> eventType)
      (dispatched (connectToggle (dispatchers (getSharedComponents el)) ())) = [''DisconnectPressed''])
     = (connectionState (server el) \<in> {CONNECTING, CONNECTED, RECONNECTING})
   \<and> (map (eventName \<circ> eventType)
      (dispatched (connectToggle (dispatchers (getSharedComponents el)) ())) = [''ConnectPressed''])
     = (connectionState (server el) \<notin> {CONNECTING, CONNECTED, RECONNECTING})"
  by (cases "connectionState (server el)") (simp_all add: connectToggle_trace isConnectedState_def)

theorem connectToggle_event_by_state_witness:
  "map (eventName \<circ> eventType)
      (dispatched (connectToggle (dispatchers (getSharedComponents
         (sampleElement (sampleServer\<lparr>connectionState := RECONNECTING\<rparr>)))) ())) = [''DisconnectPressed'']
   \<and> map (eventName \<circ> eventType)
      (dispatched (connectToggle (dispatchers (getSharedComponents
         (sampleElement (sampleServer\<lparr>connectionState := DISCONNECTING\<rparr>)))) ())) = [''ConnectPressed'']"
  using connectToggle_event_by_state [of "sampleElement (sampleServer\<lparr>connectionState := RECONNECTING\<rparr>)"]
    connectToggle_event_by_state [of "sampleElement (sampleServer\<lparr>connectionState := DISCONNECTING\<rparr>)"]
  by (simp add: sample_defs)

text \<open>
  C2. The claim is that in the hero card, for a server item with an error message id, neither
  a click on the connection indicator nor the Enter key on it dispatches an event. The click
  listener is guarded by the error id (\<open>hero_click_suppressed\<close>); the key listener is not.
  For a disconnected server with the error id \<open>error-unexpected\<close>, a click runs no
  handler and dispatches nothing, and the Enter key dispatches \<open>ConnectPressed\<close>.
\<close>

theorem hero_enter_key_ignores_error:
  "hasErrorMessage (sampleServer\<lparr>errorMessageId := Some ''error-unexpected''\<rparr>)
   \<and> click (heroIndicatorClick (renderServerHeroCard
        (sampleElement (sampleServer\<lparr>errorMessageId := Some ''error-unexpected''\<rparr>))))
      = [UncaughtTypeError]
   \<and> dispatched (click (heroIndicatorClick (renderServerHeroCard
        (sampleElement (sampleServer\<lparr>errorMessageId := Some ''error-unexpected''\<rparr>))))) = []
   \<and> dispatched (keydown (heroIndicatorKeydown (renderServerHeroCard
        (sampleElement (sampleServer\<lparr>errorMessageId := Some ''error-unexpected''\<rparr>))))
        \<lparr> key = ''Enter'' \<rparr>)
      = [\<lparr> eventType = CONNECT, detail = \<lparr> serverId = ''server-1'' \<rparr>,
           bubbles = True, composed = True \<rparr>]"
  by (simp add: card_defs sample_defs)

text \<open>
  C3, as stated, fails where the error message id is set to the empty string: the id is
  present, the localizer is not applied to it, and the text of the error span is not the
  localized message.
\<close>

theorem empty_errorMessageId_shows_no_error:
  "errorMessageId (sampleServer\<lparr>errorMessageId := Some ''''\<rparr>) \<noteq> None
   \<and> childText (footerError (rowFooter (renderServerRowCard
        (sampleElement (sampleServer\<lparr>errorMessageId := Some ''''\<rparr>)))))
      \<noteq> localizer (sampleElement (sampleServer\<lparr>errorMessageId := Some ''''\<rparr>)) ''''
   \<and> childText (footerError (heroFooter (renderServerHeroCard
        (sampleElement (sampleServer\<lparr>errorMessageId := Some ''''\<rparr>)))))
      \<noteq> localizer (sampleElement (sampleServer\<lparr>errorMessageId := Some ''''\<rparr>)) ''''"
  by (simp add: card_defs sample_defs)

text \<open>
  C3, amended. For every server item whose error message id is a non-empty string, the
  error string is shown: the text rendered in the error span of the footer, in the row card
  and in the hero card, is the localizer applied to the id.
\<close>

theorem error_shown_for_nonempty_id:
  assumes "errorMessageId (server el) = Some k" and "k \<noteq> ''''"
  shows "error (messages (getSharedComponents el)) = JSString (localizer el k)
         \<and> childText (footerError (rowFooter (renderServerRowCard el))) = localizer el k
         \<and> childText (footerError (heroFooter (renderServerHeroCard el))) = localizer el k"
  using assms by (simp add: card_defs)

theorem error_shown_for_nonempty_id_witness:
  "errorMessageId (server (sampleElement (sampleServer\<lparr>errorMessageId := Some ''error-unexpected''\<rparr>)))
     = Some ''error-unexpected''
   \<and> ''error-unexpected'' \<noteq> ''''
   \<and> childText (footerError (rowFooter (renderServerRowCard
        (sampleElement (sampleServer\<lparr>errorMessageId := Some ''error-unexpected''\<rparr>)))))
      = ''<error-unexpected>''
   \<and> childText (footerError (heroFooter (renderServerHeroCard
        (sampleElement (sampleServer\<lparr>errorMessageId := Some ''error-unexpected''\<rparr>)))))
      = ''<error-unexpected>''"
proof -
  have h1: "errorMessageId
      (server (sampleElement (sampleServer\<lparr>errorMessageId := Some ''error-unexpected''\<rparr>)))
      = Some ''error-unexpected''"
    by (simp add: sample_defs)
  have h2: "''error-unexpected'' \<noteq> ''''"
    by simp
  show ?thesis
    using h1 h2 error_shown_for_nonempty_id [OF h1 h2] by (simp add: sample_defs)
qed

text \<open>
  C4, as stated, fails where the error message id is set to the empty string: the id is
  present, and the button of the footer is enabled in both cards.
\<close>

theorem empty_errorMessageId_leaves_button_enabled:
  "errorMessageId (sampleServer\<lparr>errorMessageId := Some ''''\<rparr>) \<noteq> None
   \<and> \<not> footerButtonDisabled (rowFooter (renderServerRowCard
        (sampleElement (sampleServer\<lparr>errorMessageId := Some ''''\<rparr>))))
   \<and> \<not> footerButtonDisabled (heroFooter (renderServerHeroCard
        (sampleElement (sampleServer\<lparr>errorMessageId := Some ''''\<rparr>))))"
  by (simp add: card_defs sample_defs)

text \<open>
  C4, amended. In the row card and in the hero card, the connect/disconnect button of the
  footer is disabled if and only if the error message id is a non-empty string.
\<close>

theorem button_disabled_iff_nonempty_id:
  "footerButtonDisabled (rowFooter (renderServerRowCard el))
     = (\<exists>k. errorMessageId (server el) = Some k \<and> k \<noteq> '''')
   \<and> footerButtonDisabled (heroFooter (renderServerHeroCard el))
     = (\<exists>k. errorMessageId (server el) = Some k \<and> k \<noteq> '''')"
  by (cases "errorMessageId (server el)") (simp_all add: card_defs)

theorem button_disabled_iff_nonempty_id_witness:
  "footerButtonDisabled (rowFooter (renderServerRowCard
      (sampleElement (sampleServer\<lparr>errorMessageId := Some ''error-unexpected''\<rparr>))))
   \<and> footerButtonDisabled (heroFooter (renderServerHeroCard
      (sampleElement (sampleServer\<lparr>errorMessageId := Some ''error-unexpected''\<rparr>))))
   \<and> \<not> footerButtonDisabled (rowFooter (renderServerRowCard (sampleElement sampleServer)))
   \<and> \<not> footerButtonDisabled (heroFooter (renderServerHeroCard (sampleElement sampleServer)))"
  using button_disabled_iff_nonempty_id
      [of "sampleElement (sampleServer\<lparr>errorMessageId := Some ''error-unexpected''\<rparr>)"]
    button_disabled_iff_nonempty_id [of "sampleElement sampleServer"]
  by (simp add: sample_defs)

text \<open>
  C5. The displayed server name is the item's name when it has one; otherwise it is the
  localizer applied to \<open>server-default-name-outline\<close> for an Outline server and to
  \<open>server-default-name\<close> for any other. Both cards show that one string.
\<close>

theorem serverName_explicit_or_default:
  "serverName (messages (getSharedComponents el)) =
     (case name (server el) of
        Some n \<Rightarrow> n
      | None \<Rightarrow>
          if isOutlineServer (server el) then localizer el ''server-default-name-outline''
          else localizer el ''server-default-name'')
   \<and> metadataServerName (rowMetadataText (renderServerRowCard el))
       = serverName (messages (getSharedComponents el))
   \<and> metadataServerName (heroMetadataText (renderServerHeroCard el))
       = serverName (messages (getSharedComponents el))"
  by (cases "name (server el)") (simp_all add: card_defs)

theorem serverName_explicit_or_default_witness:
  "serverName (messages (getSharedComponents (sampleElement sampleServer))) = ''My server''
   \<and> serverName (messages (getSharedComponents (sampleElement (sampleServer\<lparr>name := None\<rparr>))))
       = ''<server-default-name-outline>''
   \<and> serverName (messages (getSharedComponents
        (sampleElement (sampleServer\<lparr>name := None, isOutlineServer := False\<rparr>))))
       = ''<server-default-name>''"
  using serverName_explicit_or_default [of "sampleElement sampleServer"]
    serverName_explicit_or_default [of "sampleElement (sampleServer\<lparr>name := None\<rparr>)"]
    serverName_explicit_or_default
      [of "sampleElement (sampleServer\<lparr>name := None, isOutlineServer := False\<rparr>)"]
  by (simp add: sample_defs)

text \<open>
  C6. The label of the connect/disconnect button is the localizer applied to
  \<open>disconnect-button-label\<close> when the connection state is one of connecting, connected,
  reconnecting, and applied to \<open>connect-button-label\<close> otherwise. Where the localizer tells
  the two keys apart, the label is the disconnect label if and only if the state is in
  that set. The footers of both cards carry the label.
\<close>

theorem connectButton_label_by_state:
  "connectButton (messages (getSharedComponents el)) =
     (if connectionState (server el) \<in> {CONNECTING, CONNECTED, RECONNECTING}
      then localizer el ''disconnect-button-label''
      else localizer el ''connect-button-label'')
   \<and> (localizer el ''disconnect-button-label'' \<noteq> localizer el ''connect-button-label'' \<longrightarrow>
        (connectButton (messages (getSharedComponents el)) = localizer el ''disconnect-button-label'')
          = (connectionState (server el) \<in> {CONNECTING, CONNECTED, RECONNECTING}))
   \<and> footerButtonLabel (rowFooter (renderServerRowCard el))
       = connectButton (messages (getSharedComponents el))
   \<and> footerButtonLabel (heroFooter (renderServerHeroCard el))
       = connectButton (messages (getSharedComponents el))"
  by (cases "connectionState (server el)") (simp_all add: card_defs)

theorem connectButton_label_by_state_witness:
  "sampleLocalizer ''disconnect-button-label'' \<noteq> sampleLocalizer ''connect-button-label''
   \<and> connectButton (messages (getSharedComponents
        (sampleElement (sampleServer\<lparr>connectionState := CONNECTING\<rparr>))))
       = ''<disconnect-button-label>''
   \<and> connectButton (messages (getSharedComponents (sampleElement sampleServer)))
       = ''<connect-button-label>''"
  using connectButton_label_by_state
      [of "sampleElement (sampleServer\<lparr>connectionState := CONNECTING\<rparr>)"]
    connectButton_label_by_state [of "sampleElement sampleServer"]
  by (simp add: sample_defs)

text \<open>
  C7. The claim is that every event dispatched by the rename, forget and connect/disconnect
  actions is one of the four events, carries the server id of the item, and bubbles and is
  composed, so that it propagates upward through the tree that contains the card. Each
  action dispatches one event of the stated type, detail and flags, but through
  \<open>dispatcher\<close>, which has no receiver: the event is dispatched on the global object and
  not on the card, so none of the three propagates from the card.
\<close>

theorem request_events_miss_the_card:
  "beginRename (dispatchers (getSharedComponents (sampleElement sampleServer))) ()
     = [DispatchEvent GlobalObject
          \<lparr> eventType = RENAME, detail = \<lparr> serverId = ''server-1'' \<rparr>,
            bubbles = True, composed = True \<rparr>]
   \<and> forget (dispatchers (getSharedComponents (sampleElement sampleServer))) ()
     = [DispatchEvent GlobalObject
          \<lparr> eventType = FORGET, detail = \<lparr> serverId = ''server-1'' \<rparr>,
            bubbles = True, composed = True \<rparr>]
   \<and> connectToggle (dispatchers (getSharedComponents (sampleElement sampleServer))) ()
     = [DispatchEvent GlobalObject
          \<lparr> eventType = CONNECT, detail = \<lparr> serverId = ''server-1'' \<rparr>,
            bubbles = True, composed = True \<rparr>]
   \<and> \<not> list_ex propagatesFromCard
        (beginRename (dispatchers (getSharedComponents (sampleElement sampleServer))) ()
         @ forget (dispatchers (getSharedComponents (sampleElement sampleServer))) ()
         @ connectToggle (dispatchers (getSharedComponents (sampleElement sampleServer))) ())"
  by (simp add: card_defs sample_defs propagatesFromCard_def)

text \<open>
  C8. Changing only the \<open>disabled\<close> field of the server item changes nothing: the messages,
  the dispatchers and the shared templates are the same, and so is what the row card and
  the hero card render.
\<close>

theorem disabled_has_no_influence:
  "getSharedComponents (el\<lparr>server := (server el)\<lparr>disabled := d\<rparr>\<rparr>) = getSharedComponents el
   \<and> renderServerRowCard (el\<lparr>server := (server el)\<lparr>disabled := d\<rparr>\<rparr>) = renderServerRowCard el
   \<and> renderServerHeroCard (el\<lparr>server := (server el)\<lparr>disabled := d\<rparr>\<rparr>) = renderServerHeroCard el"
  by (simp add: getSharedComponents_disabled renderServerRowCard_def renderServerHeroCard_def)

theorem disabled_has_no_influence_witness:
  "renderServerRowCard (sampleElement (sampleServer\<lparr>disabled := True\<rparr>))
     = renderServerRowCard (sampleElement sampleServer)
   \<and> renderServerHeroCard (sampleElement (sampleServer\<lparr>disabled := True\<rparr>))
     = renderServerHeroCard (sampleElement sampleServer)"
  using disabled_has_no_influence [where el = "sampleElement sampleServer" and d = True]
  by (simp add: sampleElement_def)

text \<open>
  C9. On every key event, the key listener of the hero card's indicator calls
  \<open>preventDefault\<close> and \<open>stopImmediatePropagation\<close>; it then runs the connect/disconnect
  toggle when the key is \<open>Enter\<close>, and only then: any other key dispatches no event.
\<close>

theorem hero_keydown_handler:
  "keydown (heroIndicatorKeydown (renderServerHeroCard el)) event =
     [PreventDefault, StopImmediatePropagation]
     @ (if key event = ''Enter'' then connectToggle (dispatchers (getSharedComponents el)) () else [])
   \<and> (dispatched (keydown (heroIndicatorKeydown (renderServerHeroCard el)) event) \<noteq> [])
       = (key event = ''Enter'')
   \<and> dispatched (keydown (heroIndicatorKeydown (renderServerHeroCard el)) event) =
       (if key event = ''Enter''
        then dispatched (connectToggle (dispatchers (getSharedComponents el)) ()) else [])"
  by (simp add: hero_keydown_listener keydown_def connectToggleKeyboardDispatcher_def
      connectToggle_trace)

theorem hero_keydown_handler_witness:
  "keydown (heroIndicatorKeydown (renderServerHeroCard (sampleElement sampleServer)))
      \<lparr> key = ''Enter'' \<rparr>
     = [PreventDefault, StopImmediatePropagation,
        DispatchEvent GlobalObject \<lparr> eventType = CONNECT, detail = \<lparr> serverId = ''server-1'' \<rparr>,
          bubbles = True, composed = True \<rparr>]
   \<and> keydown (heroIndicatorKeydown (renderServerHeroCard (sampleElement sampleServer)))
      \<lparr> key = ''Escape'' \<rparr>
     = [PreventDefault, StopImmediatePropagation]"
  using hero_keydown_handler [of "sampleElement sampleServer" "\<lparr> key = ''Enter'' \<rparr>"]
    hero_keydown_handler [of "sampleElement sampleServer" "\<lparr> key = ''Escape'' \<rparr>"]
  by (simp add: card_defs sample_defs)

text \<open>
  C10. A server item whose name is the empty string is displayed with the empty string, in
  both cards: the localized default is not taken for a name that is present.
\<close>

theorem empty_name_is_displayed:
  assumes "name (server el) = Some ''''"
  shows "serverName (messages (getSharedComponents el)) = ''''
         \<and> metadataServerName (rowMetadataText (renderServerRowCard el)) = ''''
         \<and> metadataServerName (heroMetadataText (renderServerHeroCard el)) = ''''"
  using assms by (simp add: card_defs)

theorem empty_name_is_displayed_witness:
  "name (server (sampleElement (sampleServer\<lparr>name := Some ''''\<rparr>))) = Some ''''
   \<and> serverName (messages (getSharedComponents (sampleElement (sampleServer\<lparr>name := Some ''''\<rparr>)))) = ''''
   \<and> sampleLocalizer ''server-default-name-outline'' \<noteq> ''''"
proof -
  have h: "name (server (sampleElement (sampleServer\<lparr>name := Some ''''\<rparr>))) = Some ''''"
    by (simp add: sample_defs)
  show ?thesis using h empty_name_is_displayed [OF h] by (simp add: sampleLocalizer_def)
qed

end
